theory Spec2Isabelle
  imports Main
begin

section \<open>Go values shared by the client\<close>

text \<open>
  Go strings are byte sequences; \<^typ>\<open>string\<close> is a list of 8-bit characters, so
  \<open>length\<close> is Go's \<open>len\<close> and \<open>take\<close> is the slice \<open>s[:n]\<close> when \<open>n\<close> is in range.
\<close>

text \<open>One decoded error object of the \<open>errors\<close> array of an error envelope.\<close>

record ErrorObject =
  Type :: string
  Code :: string
  Title :: string
  Message :: string

datatype json =
    JNull
  | JBool bool
  | JNum int
  | JStr string
  | JArr "json list"
  | JObj "(string \<times> json) list"

text \<open>
  Go's \<open>error\<close> interface values that occur in the modelled code:
  \<open>ErrorString\<close> is what \<open>fmt.Errorf\<close> and \<open>errors.New\<close> build (the rendered text),
  \<open>NumError\<close> is \<open>*strconv.NumError\<close> with the input and \<open>ErrSyntax\<close> or \<open>ErrRange\<close>,
  \<open>OtherError\<close> is an error of a collaborator outside the repository (the time parser,
  the transport), \<open>NetworkError\<close> and \<open>DecodeError\<close> are the client-local failures of the
  executor, and \<open>DuffelError\<close> is the decoded API error with its HTTP status.
\<close>

datatype num_err = ErrSyntax | ErrRange

datatype error =
    ErrorString string
  | NumError string num_err
  | OtherError string
  | NetworkError error
  | DecodeError "json option"
  | DuffelError int "ErrorObject list"

text \<open>A Go call either returns its pair \<open>(*T, error)\<close> or panics (a run-time error).\<close>

datatype 'r outcome =
    Returned "'r option" "error option"
  | Panicked string

text \<open>\<open>strings.HasPrefix(s, prefix)\<close>: \<open>len(s) >= len(prefix) && s[:len(prefix)] == prefix\<close>.\<close>

definition HasPrefix :: "string \<Rightarrow> string \<Rightarrow> bool" where
  "HasPrefix s pfx = (length pfx \<le> length s \<and> take (length pfx) s = pfx)"


subsection \<open>\<open>url.Values\<close> and \<open>http.Header\<close>\<close>

type_synonym Values = "string \<rightharpoonup> string list"

definition Values_Set :: "Values \<Rightarrow> string \<Rightarrow> string \<Rightarrow> Values" where
  "Values_Set q k v = q(k \<mapsto> [v])"

text \<open>\<open>Get\<close> returns the first value stored under the key, or the empty string.\<close>

definition Values_Get :: "Values \<Rightarrow> string \<Rightarrow> string" where
  "Values_Get q k = (case q k of Some (v # _) \<Rightarrow> v | _ \<Rightarrow> [])"

subsection \<open>Requests and responses\<close>

record 'p request =
  Method :: string
  Path :: string
  Query :: Values
  Payload :: "'p option"

text \<open>
  A response as the executor sees it: the status code, the headers, and the body, which
  is \<open>None\<close> when the bytes received are not JSON at all.
\<close>

record response =
  StatusCode :: int
  Header :: Values
  Body :: "json option"

section \<open>Rate-limit headers (\<open>parseRateLimit\<close>)\<close>

text \<open>
  \<open>time.Time\<close> is an instant, counted here in nanoseconds from Go's zero time
  (January 1, year 1, 00:00:00 UTC), so \<open>IsZero\<close> is equality with 0. A
  \<open>time.Duration\<close> is an \<open>int64\<close> of nanoseconds, and \<open>Time.Sub\<close> returns the
  difference when it fits and the largest or smallest duration otherwise.
\<close>

type_synonym Time = int
type_synonym Duration = int

definition IsZero :: "Time \<Rightarrow> bool" where
  "IsZero t = (t = 0)"

definition maxDuration :: Duration where
  "maxDuration = 2 ^ 63 - 1"

definition minDuration :: Duration where
  "minDuration = - (2 ^ 63)"

definition Time_Sub :: "Time \<Rightarrow> Time \<Rightarrow> Duration" where
  "Time_Sub t u =
     (let d = t - u
      in if d < minDuration then minDuration
         else if maxDuration < d then maxDuration
         else d)"

text \<open>
  \<open>strconv.Atoi\<close> on a 64-bit platform. The digits are read from the left as an
  unsigned 64-bit number (\<open>ParseUint\<close> in base 10): a byte that is not a decimal digit
  is a syntax error, and a value that leaves \<open>uint64\<close> is a range error at the digit
  where it does, whatever follows. A sign may precede the digits, at least one digit is
  needed, and a value outside \<open>int64\<close> is a range error.
\<close>

definition isDigit :: "char \<Rightarrow> bool" where
  "isDigit c = (48 \<le> (of_char c :: nat) \<and> (of_char c :: nat) \<le> 57)"

fun parseUint :: "nat \<Rightarrow> string \<Rightarrow> num_err + nat" where
  "parseUint n [] = Inr n"
| "parseUint n (c # cs) =
     (if \<not> isDigit c then Inl ErrSyntax
      else if (2 ^ 64 - 1) div 10 + 1 \<le> n then Inl ErrRange
      else (let n1 = n * 10 + (of_char c - 48)
            in if 2 ^ 64 - 1 < n1 then Inl ErrRange else parseUint n1 cs))"

definition Atoi :: "string \<Rightarrow> error + int" where
  "Atoi s =
     (let neg = (s \<noteq> [] \<and> hd s = CHR ''-'');
          ds = (if s \<noteq> [] \<and> (hd s = CHR ''-'' \<or> hd s = CHR ''+'') then tl s else s)
      in if ds = [] then Inl (NumError s ErrSyntax)
         else case parseUint 0 ds of
             Inl k \<Rightarrow> Inl (NumError s k)
           | Inr un \<Rightarrow>
               if \<not> neg \<and> 2 ^ 63 \<le> un then Inl (NumError s ErrRange)
               else if neg \<and> 2 ^ 63 < un then Inl (NumError s ErrRange)
               else Inr (if neg then - int un else int un))"

record RateLimit =
  Limit :: int
  Remaining :: int
  ResetAt :: Time
  Period :: Duration

definition RFC1123 :: string where
  "RFC1123 = ''Mon, 02 Jan 2006 15:04:05 MST''"

definition headerTimeFormats :: "string list" where
  "headerTimeFormats = [RFC1123, ''Mon, 2 Jan 2006 15:04:05 MST'']"

text \<open>
  The loop over \<open>headerTimeFormats\<close>: \<open>rl.ResetAt\<close> starts as the zero time and is set
  by the first layout that parses. The parser \<open>time.Parse\<close> belongs to the Go library
  and is a parameter \<open>tp layout value\<close> throughout.
\<close>

fun parseReset :: "(string \<Rightarrow> string \<Rightarrow> error + Time) \<Rightarrow> string list \<Rightarrow> string \<Rightarrow> Time" where
  "parseReset tp [] h = 0"
| "parseReset tp (f # fs) h =
     (case tp f h of Inr resetAt \<Rightarrow> resetAt | Inl _ \<Rightarrow> parseReset tp fs h)"

definition parseRateLimit ::
  "(string \<Rightarrow> string \<Rightarrow> error + Time) \<Rightarrow> response \<Rightarrow> error + RateLimit" where
  "parseRateLimit tp resp =
     (case Atoi (Values_Get (Header resp) ''Ratelimit-Limit'') of
        Inl e \<Rightarrow> Inl e
      | Inr limit \<Rightarrow>
     (case Atoi (Values_Get (Header resp) ''Ratelimit-Remaining'') of
        Inl e \<Rightarrow> Inl e
      | Inr remaining \<Rightarrow>
     (let resetHeader = Values_Get (Header resp) ''Ratelimit-Reset'';
          resetAt = parseReset tp headerTimeFormats resetHeader
      in if IsZero resetAt
         then Inl (ErrorString (''failed to parse Ratelimit-Reset header: '' @ resetHeader
                     @ '', no known date formats match''))
         else (case tp RFC1123 (Values_Get (Header resp) ''Date'') of
                 Inl e \<Rightarrow> Inl e
               | Inr date \<Rightarrow>
                   Inr \<lparr>Limit = limit, Remaining = remaining, ResetAt = resetAt,
                        Period = Time_Sub resetAt date\<rparr>))))"

section \<open>The request pipeline\<close>

text \<open>
  The generic request builder, the response executor, the error decoder and the
  iterator are not among the source files at hand; the resource methods below call
  them. They are written here after sections 4.1 to 4.5 of the specification.
\<close>

subsection \<open>Client state\<close>

text \<open>
  Modelled from the spec: the client object (the \<open>API\<close> struct is missing). It
  holds the transport with the server behind it (\<open>httpDoer\<close>, failing with a transport
  error or answering with a response), the rate-limit state left by the last response,
  and, as a trace of the effects, the requests issued so far.
\<close>

record 'p API =
  httpDoer :: "'p request \<Rightarrow> error + response"
  rateLimit :: "RateLimit option"
  sent :: "'p request list"

subsection \<open>Request builder\<close>

text \<open>
  Modelled from the spec: the \<open>ParamEncoder\<close> interface (missing), a payload's "encode
  into query" capability of section 4.2: a function on \<open>url.Values\<close> that also returns
  Go's \<open>error\<close>.
\<close>

type_synonym ParamEncoder = "Values \<Rightarrow> Values \<times> error option"

text \<open>
  Modelled from the spec: the builder entry point \<open>Get\<close> (missing; also \<open>Getf\<close> with
  the path already formatted). Building is pure and starts with no query parameters.
\<close>

definition Get :: "string \<Rightarrow> 'p request" where
  "Get path = \<lparr>Method = ''GET'', Path = path, Query = Map.empty, Payload = None\<rparr>"

text \<open>
  Modelled from the spec: the builder entry point \<open>Post\<close> (missing; also \<open>Postf\<close>
  followed by \<open>Body\<close>). The payload is the JSON body; \<open>None\<close> sends no body.
\<close>

definition Post :: "string \<Rightarrow> 'p option \<Rightarrow> 'p request" where
  "Post path body = \<lparr>Method = ''POST'', Path = path, Query = Map.empty, Payload = body\<rparr>"

text \<open>Modelled from the spec: \<open>WithParam\<close> of the builder (missing), one query parameter.\<close>

definition WithParam :: "string \<Rightarrow> string \<Rightarrow> 'p request \<Rightarrow> 'p request" where
  "WithParam k v r = r\<lparr>Query := Values_Set (Query r) k v\<rparr>"

text \<open>
  Modelled from the spec: \<open>WithParams\<close> of the builder (missing). Each encoder writes
  into the query in turn; the encoders of the methods below never return an error.
\<close>

definition WithParams :: "ParamEncoder list \<Rightarrow> 'p request \<Rightarrow> 'p request" where
  "WithParams encs r = r\<lparr>Query := foldl (\<lambda>q enc. fst (enc q)) (Query r) encs\<rparr>"

subsection \<open>Error decoder\<close>

text \<open>
  Modelled from the spec: reading one string field of a JSON object (the decoding of
  error objects is missing). A field that is absent or not a string reads as the empty
  string; an object lists each key once.
\<close>

definition strField :: "(string \<times> json) list \<Rightarrow> string \<Rightarrow> string" where
  "strField kvs k = (case map_of kvs k of Some (JStr s) \<Rightarrow> s | _ \<Rightarrow> [])"

text \<open>
  Modelled from the spec: decoding one entry of the \<open>errors\<close> array (missing) into its
  \<open>type\<close>, \<open>code\<close>, \<open>title\<close> and \<open>message\<close> (section 4.4).
\<close>

definition decodeErrorObject :: "json \<Rightarrow> ErrorObject" where
  "decodeErrorObject j =
     (case j of
        JObj kvs \<Rightarrow> \<lparr>Type = strField kvs ''type'', Code = strField kvs ''code'',
                     Title = strField kvs ''title'', Message = strField kvs ''message''\<rparr>
      | _ \<Rightarrow> \<lparr>Type = [], Code = [], Title = [], Message = []\<rparr>)"

text \<open>
  Modelled from the spec: parsing the \<open>errors\<close> array from the body (missing). A body
  without the array yields no error objects.
\<close>

definition errorsOf :: "json option \<Rightarrow> ErrorObject list" where
  "errorsOf body =
     (case body of
        Some (JObj kvs) \<Rightarrow>
          (case map_of kvs ''errors'' of
             Some (JArr es) \<Rightarrow> map decodeErrorObject es
           | _ \<Rightarrow> [])
      | _ \<Rightarrow> [])"

text \<open>Modelled from the spec: the type of the synthesized generic error (missing).\<close>

definition GenericErrorType :: string where
  "GenericErrorType = ''unknown_error''"

text \<open>Modelled from the spec: the code of the synthesized generic error (missing).\<close>

definition GenericErrorCode :: string where
  "GenericErrorCode = ''unknown''"

text \<open>
  Modelled from the spec: the single generic error with the fixed "unknown error"
  message that is synthesized when the response names none (missing).
\<close>

definition genericError :: ErrorObject where
  "genericError = \<lparr>Type = GenericErrorType, Code = GenericErrorCode,
                    Title = ''Unknown error'', Message = ''unknown error''\<rparr>"

text \<open>
  Modelled from the spec: the error decoder (\<open>decodeError\<close> is missing). It always
  produces a structured error tagged with the HTTP status: the decoded error objects, or
  the generic one when the array is absent or empty.
\<close>

definition decodeError :: "int \<Rightarrow> json option \<Rightarrow> error" where
  "decodeError status body =
     DuffelError status (if errorsOf body = [] then [genericError] else errorsOf body)"

text \<open>
  Modelled from the spec: the query "is this error of taxonomy type \<open>t\<close>" (\<open>IsType\<close>
  is missing). The first error object is the primary one and drives the check.
\<close>

fun IsType :: "error \<Rightarrow> string \<Rightarrow> bool" where
  "IsType (DuffelError status (e # es)) t = (Type e = t)"
| "IsType _ t = False"

text \<open>
  Modelled from the spec: the query "is this error of code \<open>c\<close>" (\<open>IsCode\<close> is
  missing), on the primary error object.
\<close>

fun IsCode :: "error \<Rightarrow> string \<Rightarrow> bool" where
  "IsCode (DuffelError status (e # es)) c = (Code e = c)"
| "IsCode _ c = False"




subsection \<open>Response executor\<close>

text \<open>
  Modelled from the spec: the bookkeeping after a response (the code that stores the
  rate limit is missing). The state is recomputed from the headers with
  \<open>parseRateLimit\<close> and left as it was when that returns an error (section 4.1).
\<close>

definition updateRateLimit ::
  "(string \<Rightarrow> string \<Rightarrow> error + Time) \<Rightarrow> response \<Rightarrow> 'p API \<Rightarrow> 'p API" where
  "updateRateLimit tp resp a =
     (case parseRateLimit tp resp of
        Inl _ \<Rightarrow> a
      | Inr rl \<Rightarrow> a\<lparr>rateLimit := Some rl\<rparr>)"


text \<open>
  Modelled from the spec: one HTTP call of the executor (missing; section 4.3, steps 1
  to 3). The request is issued; a transport failure is a network error; a response is
  followed by the rate-limit bookkeeping. Waiting for clearance takes time only and
  changes nothing here; \<open>executeAt\<close> below adds the clock.
\<close>

definition execute ::
  "(string \<Rightarrow> string \<Rightarrow> error + Time) \<Rightarrow> 'p API \<Rightarrow> 'p request \<Rightarrow> (error + response) \<times> 'p API" where
  "execute tp a req =
     (let a1 = a\<lparr>sent := sent a @ [req]\<rparr>
      in case httpDoer a req of
           Inl e \<Rightarrow> (Inl (NetworkError e), a1)
         | Inr resp \<Rightarrow> (Inr resp, updateRateLimit tp resp a1))"


text \<open>Modelled from the spec: the success statuses, 200 to 299 (the test is missing).\<close>

definition isSuccess :: "int \<Rightarrow> bool" where
  "isSuccess status = (200 \<le> status \<and> status \<le> 299)"

text \<open>Modelled from the spec: the \<open>data\<close> field of a success envelope (missing).\<close>

definition dataField :: "json option \<Rightarrow> json option" where
  "dataField body = (case body of Some (JObj kvs) \<Rightarrow> map_of kvs ''data'' | _ \<Rightarrow> None)"

text \<open>
  Modelled from the spec: \<open>Single\<close> (missing; section 4.3, steps 4 to 6). It decodes
  the \<open>data\<close> field of a 2xx response with the decoder \<open>dec\<close> of the target type
  (\<open>None\<close> is a schema mismatch, a decode error) and hands every other response to the
  error decoder.
\<close>

definition Single ::
  "(string \<Rightarrow> string \<Rightarrow> error + Time) \<Rightarrow> (json \<Rightarrow> 'r option) \<Rightarrow> 'p API \<Rightarrow> 'p request
     \<Rightarrow> 'r outcome \<times> 'p API" where
  "Single tp dec a req =
     (case execute tp a req of
        (Inl e, a') \<Rightarrow> (Returned None (Some e), a')
      | (Inr resp, a') \<Rightarrow>
          if isSuccess (StatusCode resp)
          then (case dataField (Body resp) of
                  None \<Rightarrow> (Returned None (Some (DecodeError (Body resp))), a')
                | Some d \<Rightarrow>
                    (case dec d of
                       None \<Rightarrow> (Returned None (Some (DecodeError (Body resp))), a')
                     | Some v \<Rightarrow> (Returned (Some v) None, a')))
          else (Returned None (Some (decodeError (StatusCode resp) (Body resp))), a'))"

subsection \<open>Pagination iterator\<close>

text \<open>
  Modelled from the spec: the states of the iterator (section 4.5; \<open>Iter\<close> is
  missing). They carry their data: the cursor to fetch with, or the buffered page
  together with the cursor \<open>meta.after\<close> that came with it (empty on the last page), or
  the held error.
\<close>

datatype 'a iter_state =
    Ready string
  | Fetching string
  | Holding "'a list" string
  | Exhausted
  | Failed error

text \<open>
  Modelled from the spec: the iterator object (missing). It owns its page function: a
  fetch with a cursor fails or returns the items of one page and the next cursor.
\<close>

record 'a Iter =
  pager :: "string \<Rightarrow> error + 'a list \<times> string"
  phase :: "'a iter_state"

text \<open>
  Modelled from the spec: the transition that issues a page request with the current
  cursor and enters \<open>Fetching\<close> (missing).
\<close>

definition beginFetch :: "string \<Rightarrow> 'a Iter \<Rightarrow> 'a Iter" where
  "beginFetch c it = it\<lparr>phase := Fetching c\<rparr>"

text \<open>
  Modelled from the spec: the transitions on the result of a fetch (missing): a failure
  is held in \<open>Failed\<close>; a page is buffered with its cursor in \<open>Holding\<close>.
\<close>

definition onFetch :: "error + 'a list \<times> string \<Rightarrow> 'a Iter \<Rightarrow> 'a Iter" where
  "onFetch r it =
     (case r of
        Inl e \<Rightarrow> it\<lparr>phase := Failed e\<rparr>
      | Inr (items, after) \<Rightarrow> it\<lparr>phase := Holding items after\<rparr>)"

text \<open>
  Modelled from the spec: delivery from the buffer (missing): pop one unread item; an
  empty page with no cursor is the end of the sequence.
\<close>

definition deliver :: "'a Iter \<Rightarrow> 'a Iter \<times> 'a option" where
  "deliver it =
     (case phase it of
        Holding (x # xs) c \<Rightarrow> (it\<lparr>phase := Holding xs c\<rparr>, Some x)
      | Holding [] c \<Rightarrow> (if c = [] then it\<lparr>phase := Exhausted\<rparr> else it, None)
      | _ \<Rightarrow> (it, None))"

text \<open>
  Modelled from the spec: one page fetch inside an advance (missing): request, result,
  delivery; the cursor fetched with is reported.
\<close>

definition fetchAndDeliver :: "string \<Rightarrow> 'a Iter \<Rightarrow> 'a Iter \<times> 'a option \<times> string list" where
  "fetchAndDeliver c it =
     (let it1 = beginFetch c it;
          it2 = onFetch (pager it c) it1;
          (it3, r) = deliver it2
      in (it3, r, [c]))"

text \<open>
  Modelled from the spec: the advance call of the iterator (missing). It returns the
  iterator after the call, the item delivered (\<open>None\<close> is "no more items") and the
  cursors of the page fetches the call issued. With unread items it pops one; with an
  empty buffer it fetches with the cursor it holds, unless that cursor is empty, which
  ends the sequence; the terminal states stay as they are. An advance is never made
  while a fetch is outstanding (one owner, one thread).
\<close>

definition Advance :: "'a Iter \<Rightarrow> 'a Iter \<times> 'a option \<times> string list" where
  "Advance it =
     (case phase it of
        Holding (x # xs) c \<Rightarrow> (it\<lparr>phase := Holding xs c\<rparr>, Some x, [])
      | Holding [] c \<Rightarrow>
          (if c = [] then (it\<lparr>phase := Exhausted\<rparr>, None, []) else fetchAndDeliver c it)
      | Ready c \<Rightarrow> fetchAndDeliver c it
      | Fetching c \<Rightarrow> (it, None, [])
      | Exhausted \<Rightarrow> (it, None, [])
      | Failed e \<Rightarrow> (it, None, []))"

text \<open>Modelled from the spec: the error accessor of the iterator (missing).\<close>

definition Err :: "'a Iter \<Rightarrow> error option" where
  "Err it = (case phase it of Failed e \<Rightarrow> Some e | _ \<Rightarrow> None)"

text \<open>
  Modelled from the spec: \<open>ErrIter\<close> (missing), the iterator that has already failed
  with the given error.
\<close>

definition ErrIter :: "error \<Rightarrow> 'a Iter" where
  "ErrIter err = \<lparr>pager = (\<lambda>c. Inl err), phase = Failed err\<rparr>"

text \<open>\<open>n\<close> advances in a row: the items delivered, the fetches issued, the iterator left.\<close>

fun drain :: "nat \<Rightarrow> 'a Iter \<Rightarrow> 'a option list \<times> string list \<times> 'a Iter" where
  "drain 0 it = ([], [], it)"
| "drain (Suc n) it =
     (case Advance it of
        (it1, r, l1) \<Rightarrow>
          (case drain n it1 of
             (rs, l2, it2) \<Rightarrow> (r # rs, l1 @ l2, it2)))"

text \<open>
  Modelled from the spec: the cursor \<open>meta.after\<close> of a list envelope (missing); absent
  or empty on the last page.
\<close>

definition metaAfter :: "json option \<Rightarrow> string" where
  "metaAfter body =
     (case body of
        Some (JObj kvs) \<Rightarrow>
          (case map_of kvs ''meta'' of Some (JObj m) \<Rightarrow> strField m ''after'' | _ \<Rightarrow> [])
      | _ \<Rightarrow> [])"

text \<open>
  Modelled from the spec: decoding one page (missing): a 2xx response whose \<open>data\<close> is
  an array of items of the target type, with its cursor; any other response is an error.
\<close>

definition pageOf :: "(json \<Rightarrow> 'r option) \<Rightarrow> response \<Rightarrow> error + 'r list \<times> string" where
  "pageOf dec resp =
     (if isSuccess (StatusCode resp)
      then (case dataField (Body resp) of
              Some (JArr ds) \<Rightarrow>
                (case those (map dec ds) of
                   None \<Rightarrow> Inl (DecodeError (Body resp))
                 | Some items \<Rightarrow> Inr (items, metaAfter (Body resp)))
            | _ \<Rightarrow> Inl (DecodeError (Body resp)))
      else Inl (decodeError (StatusCode resp) (Body resp)))"

text \<open>
  Modelled from the spec: \<open>Iter(ctx)\<close> of the builder (missing). Nothing is executed;
  the iterator starts ready, and its fetches send the request with the cursor as the
  \<open>after\<close> parameter (none on the first fetch). The rate-limit state of the client is
  not followed through these fetches.
\<close>

definition Iter :: "(json \<Rightarrow> 'r option) \<Rightarrow> 'p API \<Rightarrow> 'p request \<Rightarrow> 'r Iter" where
  "Iter dec a req =
     \<lparr>pager = (\<lambda>after.
         case httpDoer a (if after = [] then req else WithParam ''after'' after req) of
           Inl e \<Rightarrow> Inl (NetworkError e)
         | Inr resp \<Rightarrow> pageOf dec resp),
      phase = Ready []\<rparr>"

section \<open>Resource methods\<close>

subsection \<open>Order changes\<close>

definition orderChangeRequestIDPrefix :: string where
  "orderChangeRequestIDPrefix = ''ocr_''"

definition orderChangeOfferIDPrefix :: string where
  "orderChangeOfferIDPrefix = ''oco_''"

definition orderChangeIDPrefix :: string where
  "orderChangeIDPrefix = ''oce_''"

definition validateID :: "string \<Rightarrow> string \<Rightarrow> error option" where
  "validateID ident pfx =
     (if ident = [] then Some (ErrorString ''id param is required'')
      else if \<not> HasPrefix ident pfx then Some (ErrorString (''id should begin with '' @ pfx))
      else None)"

definition GetOrderChangeRequest ::
  "(string \<Rightarrow> string \<Rightarrow> error + Time) \<Rightarrow> (json \<Rightarrow> 'r option) \<Rightarrow> unit API \<Rightarrow> string
     \<Rightarrow> 'r outcome \<times> unit API" where
  "GetOrderChangeRequest tp dec a orderChangeRequestID =
     (case validateID orderChangeRequestID orderChangeRequestIDPrefix of
        Some err \<Rightarrow> (Returned None (Some err), a)
      | None \<Rightarrow> Single tp dec a (Get (''/air/order_change_requests/'' @ orderChangeRequestID)))"

definition CreatePendingOrderChange ::
  "(string \<Rightarrow> string \<Rightarrow> error + Time) \<Rightarrow> (json \<Rightarrow> 'r option) \<Rightarrow> (string \<times> string) list API
     \<Rightarrow> string \<Rightarrow> 'r outcome \<times> (string \<times> string) list API" where
  "CreatePendingOrderChange tp dec a offerID =
     (case validateID offerID orderChangeOfferIDPrefix of
        Some err \<Rightarrow> (Returned None (Some err), a)
      | None \<Rightarrow>
          Single tp dec a
            (Post ''/air/order_changes'' (Some [(''selected_order_change_offer'', offerID)])))"

definition ConfirmOrderChange ::
  "(string \<Rightarrow> string \<Rightarrow> error + Time) \<Rightarrow> (json \<Rightarrow> 'r option) \<Rightarrow> 'pay API \<Rightarrow> string \<Rightarrow> 'pay
     \<Rightarrow> 'r outcome \<times> 'pay API" where
  "ConfirmOrderChange tp dec a orderChangeRequestID payment =
     (case validateID orderChangeRequestID orderChangeRequestIDPrefix of
        Some err \<Rightarrow> (Returned None (Some err), a)
      | None \<Rightarrow>
          Single tp dec a
            (Post (''/air/order_changes/'' @ orderChangeRequestID @ ''/actions/confirm'')
               (Some payment)))"

definition GetOrderChange ::
  "(string \<Rightarrow> string \<Rightarrow> error + Time) \<Rightarrow> (json \<Rightarrow> 'r option) \<Rightarrow> unit API \<Rightarrow> string
     \<Rightarrow> 'r outcome \<times> unit API" where
  "GetOrderChange tp dec a ident =
     (case validateID ident orderChangeIDPrefix of
        Some err \<Rightarrow> (Returned None (Some err), a)
      | None \<Rightarrow> Single tp dec a (Get (''/air/order_changes/'' @ ident)))"

definition GetOrderChangeOffer ::
  "(string \<Rightarrow> string \<Rightarrow> error + Time) \<Rightarrow> (json \<Rightarrow> 'r option) \<Rightarrow> unit API \<Rightarrow> string
     \<Rightarrow> 'r outcome \<times> unit API" where
  "GetOrderChangeOffer tp dec a ident =
     (case validateID ident orderChangeOfferIDPrefix of
        Some err \<Rightarrow> (Returned None (Some err), a)
      | None \<Rightarrow> Single tp dec a (Get (''/air/order_change_offers/'' @ ident)))"

subsection \<open>Order cancellations\<close>

definition orderCancellationIDPrefix :: string where
  "orderCancellationIDPrefix = ''ore_''"

text \<open>
  Both methods build their error message from \<open>orderCancellationID[:4]\<close>. Go evaluates
  the slice before \<open>fmt.Errorf\<close> is called, and slicing a string shorter than four
  bytes is a run-time panic.
\<close>

definition ConfirmOrderCancellation ::
  "(string \<Rightarrow> string \<Rightarrow> error + Time) \<Rightarrow> (json \<Rightarrow> 'r option) \<Rightarrow> unit API \<Rightarrow> string
     \<Rightarrow> 'r outcome \<times> unit API" where
  "ConfirmOrderCancellation tp dec a orderCancellationID =
     (if \<not> HasPrefix orderCancellationID orderCancellationIDPrefix
      then (if length orderCancellationID < 4
            then (Panicked ''slice bounds out of range'', a)
            else (Returned None
                    (Some (ErrorString (''orderCancellationID should have prefix ''
                       @ orderCancellationIDPrefix @ '', got '' @ take 4 orderCancellationID))),
                  a))
      else Single tp dec a
             (Post (''/air/order_cancellations/'' @ orderCancellationID @ ''/actions/confirm'')
                None))"

definition GetOrderCancellation ::
  "(string \<Rightarrow> string \<Rightarrow> error + Time) \<Rightarrow> (json \<Rightarrow> 'r option) \<Rightarrow> unit API \<Rightarrow> string
     \<Rightarrow> 'r outcome \<times> unit API" where
  "GetOrderCancellation tp dec a orderCancellationID =
     (if \<not> HasPrefix orderCancellationID orderCancellationIDPrefix
      then (if length orderCancellationID < 4
            then (Panicked ''slice bounds out of range'', a)
            else (Returned None
                    (Some (ErrorString (''orderCancellationID should have prefix ''
                       @ orderCancellationIDPrefix @ '', got '' @ take 4 orderCancellationID))),
                  a))
      else Single tp dec a (Get (''/air/order_cancellations/'' @ orderCancellationID)))"

text \<open>
  The monetary accessors read two raw strings and hand them to \<open>currency.NewAmount\<close>
  of an outside library: the parameter \<open>newAmount\<close>, with \<open>zero\<close> for the zero value
  \<open>currency.Amount{}\<close>. The records keep the fields the accessors read.
\<close>

record OrderCancellation =
  RawRefundCurrency :: string
  RawRefundAmount :: string

definition RefundAmount ::
  "(string \<Rightarrow> string \<Rightarrow> error + 'amt) \<Rightarrow> 'amt \<Rightarrow> OrderCancellation \<Rightarrow> 'amt" where
  "RefundAmount newAmount zero obj =
     (case newAmount (RawRefundAmount obj) (RawRefundCurrency obj) of
        Inl err \<Rightarrow> zero
      | Inr amount \<Rightarrow> amount)"

subsection \<open>Order change offers\<close>

record OrderChangeOffer =
  RawPenaltyTotalCurrency :: string
  RawPenaltyTotalAmount :: string
  RawNewTotalCurrency :: string
  RawNewTotalAmount :: string
  RawChangeTotalCurrency :: string
  RawChangeTotalAmount :: string

definition ChangeTotalAmount ::
  "(string \<Rightarrow> string \<Rightarrow> error + 'amt) \<Rightarrow> 'amt \<Rightarrow> OrderChangeOffer \<Rightarrow> 'amt" where
  "ChangeTotalAmount newAmount zero obj =
     (case newAmount (RawChangeTotalAmount obj) (RawChangeTotalCurrency obj) of
        Inl err \<Rightarrow> zero
      | Inr amount \<Rightarrow> amount)"

definition NewTotalAmount ::
  "(string \<Rightarrow> string \<Rightarrow> error + 'amt) \<Rightarrow> 'amt \<Rightarrow> OrderChangeOffer \<Rightarrow> 'amt" where
  "NewTotalAmount newAmount zero obj =
     (case newAmount (RawNewTotalAmount obj) (RawNewTotalCurrency obj) of
        Inl err \<Rightarrow> zero
      | Inr amount \<Rightarrow> amount)"

definition PenaltyTotalAmount ::
  "(string \<Rightarrow> string \<Rightarrow> error + 'amt) \<Rightarrow> 'amt \<Rightarrow> OrderChangeOffer \<Rightarrow> 'amt" where
  "PenaltyTotalAmount newAmount zero obj =
     (case newAmount (RawPenaltyTotalAmount obj) (RawPenaltyTotalCurrency obj) of
        Inl err \<Rightarrow> zero
      | Inr amount \<Rightarrow> amount)"

subsection \<open>Offers\<close>

definition offerRequestIDPrefix :: string where
  "offerRequestIDPrefix = ''orq_''"

record Offer =
  RawTotalCurrency :: string
  RawTotalAmount :: string
  RawTaxAmount :: string
  RawTaxCurrency :: string
  RawBaseAmount :: string
  RawBaseCurrency :: string

text \<open>
  \<open>ListOffers\<close>: the options arrive as the parameter encoders \<open>normalizeParams\<close> makes
  of them.
\<close>

definition ListOffers ::
  "(json \<Rightarrow> 'r option) \<Rightarrow> 'p API \<Rightarrow> string \<Rightarrow> ParamEncoder list \<Rightarrow> 'r Iter" where
  "ListOffers dec a offerRequestID options =
     (if offerRequestID = [] then ErrIter (ErrorString ''offerRequestId param is required'')
      else if \<not> HasPrefix offerRequestID offerRequestIDPrefix
      then ErrIter (ErrorString (''offerRequestId should begin with '' @ offerRequestIDPrefix))
      else Iter dec a
             (WithParams options
                (WithParam ''offer_request_id'' offerRequestID (Get ''/air/offers''))))"

definition BaseAmount ::
  "(string \<Rightarrow> string \<Rightarrow> error + 'amt) \<Rightarrow> 'amt \<Rightarrow> Offer \<Rightarrow> 'amt" where
  "BaseAmount newAmount zero obj =
     (case newAmount (RawBaseAmount obj) (RawBaseCurrency obj) of
        Inl err \<Rightarrow> zero
      | Inr amount \<Rightarrow> amount)"

definition TotalAmount ::
  "(string \<Rightarrow> string \<Rightarrow> error + 'amt) \<Rightarrow> 'amt \<Rightarrow> Offer \<Rightarrow> 'amt" where
  "TotalAmount newAmount zero obj =
     (case newAmount (RawTotalAmount obj) (RawTotalCurrency obj) of
        Inl err \<Rightarrow> zero
      | Inr amount \<Rightarrow> amount)"

definition TaxAmount ::
  "(string \<Rightarrow> string \<Rightarrow> error + 'amt) \<Rightarrow> 'amt \<Rightarrow> Offer \<Rightarrow> 'amt" where
  "TaxAmount newAmount zero obj =
     (case newAmount (RawTaxAmount obj) (RawTaxCurrency obj) of
        Inl err \<Rightarrow> zero
      | Inr amount \<Rightarrow> amount)"

subsection \<open>Offer requests\<close>




section \<open>A paged result\<close>


section \<open>Concrete inputs\<close>

text \<open>
  The values the concrete instances below are computed at. \<open>sampleParse\<close> lists what
  \<open>time.Parse\<close> returns for a few header values: the first two under both layouts,
  the one with a one-digit day under the second layout only, and nothing else parses.
  The instants are nanoseconds from the zero time; 2006-01-02 15:04:05 GMT is
  63271811045 seconds after it.
\<close>

definition sampleParse :: "string \<Rightarrow> string \<Rightarrow> error + Time" where
  "sampleParse layout v =
     (if v = ''Mon, 02 Jan 2006 15:04:05 GMT'' then Inr 63271811045000000000
      else if v = ''Mon, 02 Jan 2006 15:05:05 GMT'' then Inr 63271811105000000000
      else if v = ''Mon, 2 Jan 2006 15:05:05 GMT'' \<and> layout \<noteq> RFC1123
        then Inr 63271811105000000000
      else if v = ''Fri, 31 Dec 9999 23:59:59 GMT'' then Inr 315537897599000000000
      else if v = ''Mon, 01 Jan 0001 00:00:00 UTC'' then Inr 0
      else Inl (OtherError (''parsing time '' @ v)))"

definition noParse :: "string \<Rightarrow> string \<Rightarrow> error + Time" where
  "noParse layout v = Inl (OtherError ''parsing time'')"

definition rateHeaders :: "string \<Rightarrow> string \<Rightarrow> string \<Rightarrow> string \<Rightarrow> Values" where
  "rateHeaders lim rem reset date =
     [''Ratelimit-Limit'' \<mapsto> [lim], ''Ratelimit-Remaining'' \<mapsto> [rem],
      ''Ratelimit-Reset'' \<mapsto> [reset], ''Date'' \<mapsto> [date]]"

definition okResponse :: "Values \<Rightarrow> response" where
  "okResponse hdr = \<lparr>StatusCode = 200, Header = hdr, Body = Some (JObj [(''data'', JStr ''ok'')])\<rparr>"

definition anyJSON :: "json \<Rightarrow> json option" where
  "anyJSON j = Some j"

definition earlierLimit :: RateLimit where
  "earlierLimit = \<lparr>Limit = 60, Remaining = 59, ResetAt = 63271811000000000000, Period = 60000000000\<rparr>"

text \<open>A client whose server answers every request with one response, and one that is offline.\<close>

definition fixedAPI :: "response \<Rightarrow> 'p API" where
  "fixedAPI resp = \<lparr>httpDoer = (\<lambda>req. Inr resp), rateLimit = Some earlierLimit, sent = []\<rparr>"

definition failingDoer :: "'p request \<Rightarrow> error + response" where
  "failingDoer req = Inl (OtherError ''connection refused'')"

definition idleAPI :: "'p API" where
  "idleAPI = \<lparr>httpDoer = failingDoer, rateLimit = None, sent = []\<rparr>"

text \<open>
  A stand-in for \<open>currency.NewAmount\<close>: it accepts a number written with digits and
  points together with one of three currency codes.
\<close>

definition sampleNewAmount :: "string \<Rightarrow> string \<Rightarrow> error + string \<times> string" where
  "sampleNewAmount n code =
     (if n \<noteq> [] \<and> list_all (\<lambda>c. isDigit c \<or> c = CHR ''.'') n \<and> code \<in> {''GBP'', ''USD'', ''EUR''}
      then Inr (n, code)
      else Inl (ErrorString ''invalid amount''))"

definition zeroAmount :: "string \<times> string" where
  "zeroAmount = (''0'', [])"

definition pricedOffer :: Offer where
  "pricedOffer = \<lparr>RawTotalCurrency = ''GBP'', RawTotalAmount = ''45.00'',
                   RawTaxAmount = ''5.00'', RawTaxCurrency = ''GBP'',
                   RawBaseAmount = ''40.00'', RawBaseCurrency = ''GBP''\<rparr>"

definition blankOffer :: Offer where
  "blankOffer = \<lparr>RawTotalCurrency = [], RawTotalAmount = [],
                  RawTaxAmount = ''abc'', RawTaxCurrency = ''GBP'',
                  RawBaseAmount = ''40.00'', RawBaseCurrency = ''pounds''\<rparr>"

definition pricedCancellation :: OrderCancellation where
  "pricedCancellation = \<lparr>RawRefundCurrency = ''USD'', RawRefundAmount = ''90.80''\<rparr>"

definition blankCancellation :: OrderCancellation where
  "blankCancellation = \<lparr>RawRefundCurrency = [], RawRefundAmount = []\<rparr>"

definition pricedChangeOffer :: OrderChangeOffer where
  "pricedChangeOffer = \<lparr>RawPenaltyTotalCurrency = ''EUR'', RawPenaltyTotalAmount = ''15.50'',
                         RawNewTotalCurrency = ''EUR'', RawNewTotalAmount = ''121.30'',
                         RawChangeTotalCurrency = ''EUR'', RawChangeTotalAmount = ''30.50''\<rparr>"

definition blankChangeOffer :: OrderChangeOffer where
  "blankChangeOffer = \<lparr>RawPenaltyTotalCurrency = [], RawPenaltyTotalAmount = [],
                        RawNewTotalCurrency = [], RawNewTotalAmount = ''121.30'',
                        RawChangeTotalCurrency = ''EUR'', RawChangeTotalAmount = ''x''\<rparr>"


definition brokenSecondPage :: "string \<Rightarrow> error + string list \<times> string" where
  "brokenSecondPage c =
     (if c = [] then Inr ([''off_1'', ''off_2''], ''g2wAAAAC'')
      else Inl (NetworkError (OtherError ''connection reset'')))"




text \<open>
  Error responses: the body of the fixture \<open>400-bad-request.json\<close> as
  \<open>TestClientError\<close> relies on it, a server error with no \<open>errors\<close> array, a gateway error whose body is not
  JSON, and the
  mocked server of the test, which answers requests to \<open>/air/offer_requests\<close> that
  carry \<open>return_offers=false\<close>.
\<close>

definition airlineErrorFields :: "(string \<times> json) list" where
  "airlineErrorFields =
     [(''type'', JStr ''airline_error''),
      (''title'', JStr ''Airline error''),
      (''message'', JStr ''The airline responded with an unexpected error, please contact support''),
      (''documentation_url'', JStr ''https://duffel.com/docs/api/overview/errors''),
      (''code'', JStr ''airline_unknown'')]"

definition airlineErrorEnvelope :: "(string \<times> json) list" where
  "airlineErrorEnvelope =
     [(''meta'', JObj [(''status'', JNum 400), (''request_id'', JStr ''FZW0H3HdJwKk5HMAAKxB'')]),
      (''errors'', JArr [JObj airlineErrorFields])]"

definition airlineErrorBody :: json where
  "airlineErrorBody = JObj airlineErrorEnvelope"

definition badRequest :: response where
  "badRequest = \<lparr>StatusCode = 400, Header = Map.empty, Body = Some airlineErrorBody\<rparr>"

definition serverError :: response where
  "serverError = \<lparr>StatusCode = 500, Header = Map.empty, Body = Some (JObj [])\<rparr>"

definition gatewayError :: response where
  "gatewayError = \<lparr>StatusCode = 502, Header = Map.empty, Body = None\<rparr>"




section \<open>Order cancellation identifiers\<close>

text \<open>
  Claim C1. Every failure of a public operation is returned as an error value and never
  ends the process; in particular \<open>ConfirmOrderCancellation\<close> and
  \<open>GetOrderCancellation\<close> return no result and an error for every identifier that does
  not begin with \<open>ore_\<close>, the empty string and strings of fewer than four bytes
  included. The code does not do this: on the empty identifier and on \<open>or\<close> both
  methods panic while they build the error message, and the client state is untouched.
\<close>

theorem order_cancellation_short_id_panics:
  "ConfirmOrderCancellation tp dec a [] = (Panicked ''slice bounds out of range'', a) \<and>
   GetOrderCancellation tp dec a [] = (Panicked ''slice bounds out of range'', a) \<and>
   ConfirmOrderCancellation tp dec a ''or'' = (Panicked ''slice bounds out of range'', a) \<and>
   GetOrderCancellation tp dec a ''or'' = (Panicked ''slice bounds out of range'', a)"
  by (simp add: ConfirmOrderCancellation_def GetOrderCancellation_def HasPrefix_def
      orderCancellationIDPrefix_def)

section \<open>Identifier validation\<close>

lemma validateID_rejects:
  "ident = [] \<or> \<not> HasPrefix ident pfx \<Longrightarrow> validateID ident pfx \<noteq> None"
  by (auto simp: validateID_def)

lemma Advance_ErrIter: "Advance (ErrIter e) = (ErrIter e, None, [])"
  by (simp add: Advance_def ErrIter_def)

text \<open>
  Claim C9. For every identifier that is empty or does not begin with the prefix the
  method requires, the method fails before any HTTP request is issued:
  \<open>GetOrderChangeRequest\<close>, \<open>CreatePendingOrderChange\<close>, \<open>ConfirmOrderChange\<close>,
  \<open>GetOrderChange\<close> and \<open>GetOrderChangeOffer\<close> return no result and an error and leave
  the client as it was (nothing is added to the requests sent), and \<open>ListOffers\<close>
  returns an iterator that has already failed: its error accessor reports the error and
  an advance delivers nothing and fetches nothing.
\<close>

theorem invalid_id_fails_before_request:
  "(i = [] \<or> \<not> HasPrefix i orderChangeRequestIDPrefix \<longrightarrow>
      (\<exists>err. GetOrderChangeRequest tp dec1 a1 i = (Returned None (Some err), a1))
    \<and> (\<exists>err. ConfirmOrderChange tp dec3 a3 i payment = (Returned None (Some err), a3)))
   \<and> (i = [] \<or> \<not> HasPrefix i orderChangeOfferIDPrefix \<longrightarrow>
      (\<exists>err. CreatePendingOrderChange tp dec2 a2 i = (Returned None (Some err), a2))
    \<and> (\<exists>err. GetOrderChangeOffer tp dec5 a5 i = (Returned None (Some err), a5)))
   \<and> (i = [] \<or> \<not> HasPrefix i orderChangeIDPrefix \<longrightarrow>
      (\<exists>err. GetOrderChange tp dec4 a4 i = (Returned None (Some err), a4)))
   \<and> (i = [] \<or> \<not> HasPrefix i offerRequestIDPrefix \<longrightarrow>
      (\<exists>err. phase (ListOffers dec6 a6 i options) = Failed err
           \<and> Err (ListOffers dec6 a6 i options) = Some err
           \<and> Advance (ListOffers dec6 a6 i options) = (ListOffers dec6 a6 i options, None, [])))"
proof (intro conjI impI)
  assume h: "i = [] \<or> \<not> HasPrefix i orderChangeRequestIDPrefix"
  from validateID_rejects [OF h] obtain err
    where v: "validateID i orderChangeRequestIDPrefix = Some err" by auto
  show "\<exists>err. GetOrderChangeRequest tp dec1 a1 i = (Returned None (Some err), a1)"
    by (simp add: GetOrderChangeRequest_def v)
  show "\<exists>err. ConfirmOrderChange tp dec3 a3 i payment = (Returned None (Some err), a3)"
    by (simp add: ConfirmOrderChange_def v)
next
  assume h: "i = [] \<or> \<not> HasPrefix i orderChangeOfferIDPrefix"
  from validateID_rejects [OF h] obtain err
    where v: "validateID i orderChangeOfferIDPrefix = Some err" by auto
  show "\<exists>err. CreatePendingOrderChange tp dec2 a2 i = (Returned None (Some err), a2)"
    by (simp add: CreatePendingOrderChange_def v)
  show "\<exists>err. GetOrderChangeOffer tp dec5 a5 i = (Returned None (Some err), a5)"
    by (simp add: GetOrderChangeOffer_def v)
next
  assume h: "i = [] \<or> \<not> HasPrefix i orderChangeIDPrefix"
  from validateID_rejects [OF h] obtain err
    where v: "validateID i orderChangeIDPrefix = Some err" by auto
  show "\<exists>err. GetOrderChange tp dec4 a4 i = (Returned None (Some err), a4)"
    by (simp add: GetOrderChange_def v)
next
  assume h: "i = [] \<or> \<not> HasPrefix i offerRequestIDPrefix"
  then have "\<exists>err. ListOffers dec6 a6 i options = ErrIter err"
    using h by (cases "i = []") (auto simp add: ListOffers_def)
  then obtain err where l: "ListOffers dec6 a6 i options = ErrIter err" ..
  show "\<exists>err. phase (ListOffers dec6 a6 i options) = Failed err
           \<and> Err (ListOffers dec6 a6 i options) = Some err
           \<and> Advance (ListOffers dec6 a6 i options) = (ListOffers dec6 a6 i options, None, [])"
    unfolding l by (rule exI [of _ err]) (simp add: Advance_ErrIter, simp add: ErrIter_def Err_def)
qed

theorem invalid_id_fails_before_request_witness:
  "\<not> HasPrefix ''ord_0000A'' orderChangeRequestIDPrefix
   \<and> \<not> HasPrefix ''ord_0000A'' orderChangeOfferIDPrefix
   \<and> \<not> HasPrefix ''ord_0000A'' orderChangeIDPrefix
   \<and> \<not> HasPrefix ''ord_0000A'' offerRequestIDPrefix
   \<and> (\<exists>err. GetOrderChangeRequest noParse anyJSON idleAPI ''ord_0000A'' = (Returned None (Some err), idleAPI))
   \<and> (\<exists>err. ConfirmOrderChange noParse anyJSON idleAPI ''ord_0000A'' () = (Returned None (Some err), idleAPI))
   \<and> (\<exists>err. CreatePendingOrderChange noParse anyJSON idleAPI ''ord_0000A'' = (Returned None (Some err), idleAPI))
   \<and> (\<exists>err. GetOrderChangeOffer noParse anyJSON idleAPI ''ord_0000A'' = (Returned None (Some err), idleAPI))
   \<and> (\<exists>err. GetOrderChange noParse anyJSON idleAPI ''ord_0000A'' = (Returned None (Some err), idleAPI))
   \<and> (\<exists>err. Err (ListOffers anyJSON (idleAPI :: unit API) ''ord_0000A'' []) = Some err)"
proof -
  have h: "\<not> HasPrefix ''ord_0000A'' orderChangeRequestIDPrefix"
    "\<not> HasPrefix ''ord_0000A'' orderChangeOfferIDPrefix"
    "\<not> HasPrefix ''ord_0000A'' orderChangeIDPrefix"
    "\<not> HasPrefix ''ord_0000A'' offerRequestIDPrefix"
    by (simp_all add: HasPrefix_def orderChangeRequestIDPrefix_def orderChangeOfferIDPrefix_def
        orderChangeIDPrefix_def offerRequestIDPrefix_def)
  show ?thesis
    using h invalid_id_fails_before_request [of "''ord_0000A''" noParse anyJSON idleAPI anyJSON
        idleAPI "()" anyJSON idleAPI anyJSON idleAPI anyJSON idleAPI anyJSON "idleAPI :: unit API" "[]"]
    by blast
qed

section \<open>Monetary accessors\<close>

text \<open>
  Claim C10. Every monetary accessor is total over its raw string fields. For an offer
  (\<open>TotalAmount\<close>, \<open>BaseAmount\<close>, \<open>TaxAmount\<close>), an order cancellation
  (\<open>RefundAmount\<close>) and an order change offer (\<open>ChangeTotalAmount\<close>,
  \<open>NewTotalAmount\<close>, \<open>PenaltyTotalAmount\<close>): when \<open>currency.NewAmount\<close> rejects the
  stored amount and currency the accessor returns the zero amount, and otherwise it
  returns the amount built from exactly those two strings.
\<close>

theorem monetary_accessors_total:
  "(isl (na (RawTotalAmount off) (RawTotalCurrency off)) \<longrightarrow> TotalAmount na z off = z)
   \<and> (na (RawTotalAmount off) (RawTotalCurrency off) = Inr amt1 \<longrightarrow> TotalAmount na z off = amt1)
   \<and> (isl (na (RawBaseAmount off) (RawBaseCurrency off)) \<longrightarrow> BaseAmount na z off = z)
   \<and> (na (RawBaseAmount off) (RawBaseCurrency off) = Inr amt2 \<longrightarrow> BaseAmount na z off = amt2)
   \<and> (isl (na (RawTaxAmount off) (RawTaxCurrency off)) \<longrightarrow> TaxAmount na z off = z)
   \<and> (na (RawTaxAmount off) (RawTaxCurrency off) = Inr amt3 \<longrightarrow> TaxAmount na z off = amt3)
   \<and> (isl (na (RawRefundAmount oc) (RawRefundCurrency oc)) \<longrightarrow> RefundAmount na z oc = z)
   \<and> (na (RawRefundAmount oc) (RawRefundCurrency oc) = Inr amt4 \<longrightarrow> RefundAmount na z oc = amt4)
   \<and> (isl (na (RawChangeTotalAmount oco) (RawChangeTotalCurrency oco))
        \<longrightarrow> ChangeTotalAmount na z oco = z)
   \<and> (na (RawChangeTotalAmount oco) (RawChangeTotalCurrency oco) = Inr amt5
        \<longrightarrow> ChangeTotalAmount na z oco = amt5)
   \<and> (isl (na (RawNewTotalAmount oco) (RawNewTotalCurrency oco)) \<longrightarrow> NewTotalAmount na z oco = z)
   \<and> (na (RawNewTotalAmount oco) (RawNewTotalCurrency oco) = Inr amt6
        \<longrightarrow> NewTotalAmount na z oco = amt6)
   \<and> (isl (na (RawPenaltyTotalAmount oco) (RawPenaltyTotalCurrency oco))
        \<longrightarrow> PenaltyTotalAmount na z oco = z)
   \<and> (na (RawPenaltyTotalAmount oco) (RawPenaltyTotalCurrency oco) = Inr amt7
        \<longrightarrow> PenaltyTotalAmount na z oco = amt7)"
  unfolding TotalAmount_def BaseAmount_def TaxAmount_def RefundAmount_def
    ChangeTotalAmount_def NewTotalAmount_def PenaltyTotalAmount_def
  by (intro conjI impI) (simp_all split: sum.splits add: isl_def, auto)

lemma sample_ok:
  "sampleNewAmount ''45.00'' ''GBP'' = Inr (''45.00'', ''GBP'')"
  "sampleNewAmount ''40.00'' ''GBP'' = Inr (''40.00'', ''GBP'')"
  "sampleNewAmount ''5.00'' ''GBP'' = Inr (''5.00'', ''GBP'')"
  "sampleNewAmount ''90.80'' ''USD'' = Inr (''90.80'', ''USD'')"
  "sampleNewAmount ''30.50'' ''EUR'' = Inr (''30.50'', ''EUR'')"
  "sampleNewAmount ''121.30'' ''EUR'' = Inr (''121.30'', ''EUR'')"
  "sampleNewAmount ''15.50'' ''EUR'' = Inr (''15.50'', ''EUR'')"
  by (simp_all add: sampleNewAmount_def isDigit_def)

lemma sample_bad:
  "isl (sampleNewAmount [] [])"
  "isl (sampleNewAmount ''abc'' ''GBP'')"
  "isl (sampleNewAmount ''40.00'' ''pounds'')"
  "isl (sampleNewAmount ''121.30'' [])"
  "isl (sampleNewAmount ''x'' ''EUR'')"
  by (simp_all add: sampleNewAmount_def isDigit_def)

theorem monetary_accessors_total_witness:
  "TotalAmount sampleNewAmount zeroAmount pricedOffer = (''45.00'', ''GBP'')
   \<and> BaseAmount sampleNewAmount zeroAmount pricedOffer = (''40.00'', ''GBP'')
   \<and> TaxAmount sampleNewAmount zeroAmount pricedOffer = (''5.00'', ''GBP'')
   \<and> RefundAmount sampleNewAmount zeroAmount pricedCancellation = (''90.80'', ''USD'')
   \<and> ChangeTotalAmount sampleNewAmount zeroAmount pricedChangeOffer = (''30.50'', ''EUR'')
   \<and> NewTotalAmount sampleNewAmount zeroAmount pricedChangeOffer = (''121.30'', ''EUR'')
   \<and> PenaltyTotalAmount sampleNewAmount zeroAmount pricedChangeOffer = (''15.50'', ''EUR'')
   \<and> TotalAmount sampleNewAmount zeroAmount blankOffer = zeroAmount
   \<and> BaseAmount sampleNewAmount zeroAmount blankOffer = zeroAmount
   \<and> TaxAmount sampleNewAmount zeroAmount blankOffer = zeroAmount
   \<and> RefundAmount sampleNewAmount zeroAmount blankCancellation = zeroAmount
   \<and> ChangeTotalAmount sampleNewAmount zeroAmount blankChangeOffer = zeroAmount
   \<and> NewTotalAmount sampleNewAmount zeroAmount blankChangeOffer = zeroAmount
   \<and> PenaltyTotalAmount sampleNewAmount zeroAmount blankChangeOffer = zeroAmount"
  using
    monetary_accessors_total [of sampleNewAmount pricedOffer zeroAmount
      "(''45.00'', ''GBP'')" "(''40.00'', ''GBP'')" "(''5.00'', ''GBP'')"
      pricedCancellation "(''90.80'', ''USD'')" pricedChangeOffer
      "(''30.50'', ''EUR'')" "(''121.30'', ''EUR'')" "(''15.50'', ''EUR'')"]
    monetary_accessors_total [of sampleNewAmount blankOffer zeroAmount _ _ _
      blankCancellation _ blankChangeOffer]
  by (simp add: sample_ok sample_bad pricedOffer_def blankOffer_def pricedCancellation_def
      blankCancellation_def pricedChangeOffer_def blankChangeOffer_def)

section \<open>Rate-limit bookkeeping\<close>

lemma Atoi_samples:
  "Atoi ''100'' = Inr 100" "Atoi ''42'' = Inr 42" "Atoi ''0'' = Inr 0"
  "Atoi [] = Inl (NumError [] ErrSyntax)"
  by (simp_all add: Atoi_def isDigit_def)

lemma rateHeaders_Get:
  "Values_Get (rateHeaders lim rem reset date) ''Ratelimit-Limit'' = lim"
  "Values_Get (rateHeaders lim rem reset date) ''Ratelimit-Remaining'' = rem"
  "Values_Get (rateHeaders lim rem reset date) ''Ratelimit-Reset'' = reset"
  "Values_Get (rateHeaders lim rem reset date) ''Date'' = date"
  by (simp_all add: Values_Get_def rateHeaders_def)

lemma Values_Get_empty: "Values_Get Map.empty k = []"
  by (simp add: Values_Get_def)

lemma parseReset_first:
  "tp RFC1123 h = Inr t \<Longrightarrow> parseReset tp headerTimeFormats h = t"
  by (simp add: headerTimeFormats_def)

lemma parseReset_second:
  "tp RFC1123 h = Inl e \<Longrightarrow> tp ''Mon, 2 Jan 2006 15:04:05 MST'' h = Inr t
     \<Longrightarrow> parseReset tp headerTimeFormats h = t"
  by (simp add: headerTimeFormats_def)

lemma parseReset_none:
  "\<forall>f \<in> set headerTimeFormats. isl (tp f h) \<Longrightarrow> parseReset tp headerTimeFormats h = 0"
  by (auto simp add: headerTimeFormats_def isl_def)

text \<open>
  Claim C4, as amended. When \<open>Ratelimit-Limit\<close> and \<open>Ratelimit-Remaining\<close> are
  integers \<open>strconv.Atoi\<close> accepts, \<open>Ratelimit-Reset\<close> parses under the first of the
  two layouts that accepts it to a time other than the zero time, and \<open>Date\<close> parses,
  \<open>parseRateLimit\<close> returns the rate limit with these values, and its period is the
  reset time minus the date when that difference fits a \<open>Duration\<close> and the nearest
  bound of \<open>Duration\<close> otherwise.
\<close>

theorem parseRateLimit_parsed_headers:
  assumes lim: "Atoi (Values_Get (Header resp) ''Ratelimit-Limit'') = Inr l"
    and rem: "Atoi (Values_Get (Header resp) ''Ratelimit-Remaining'') = Inr r"
    and reset: "tp RFC1123 (Values_Get (Header resp) ''Ratelimit-Reset'') = Inr t
        \<or> (tp RFC1123 (Values_Get (Header resp) ''Ratelimit-Reset'') = Inl e
           \<and> tp ''Mon, 2 Jan 2006 15:04:05 MST'' (Values_Get (Header resp) ''Ratelimit-Reset'') = Inr t)"
    and nz: "t \<noteq> 0"
    and date: "tp RFC1123 (Values_Get (Header resp) ''Date'') = Inr d"
  shows "parseRateLimit tp resp =
           Inr \<lparr>Limit = l, Remaining = r, ResetAt = t,
                Period = (if t - d < minDuration then minDuration
                          else if maxDuration < t - d then maxDuration
                          else t - d)\<rparr>"
proof -
  from reset have "parseReset tp headerTimeFormats (Values_Get (Header resp) ''Ratelimit-Reset'') = t"
    by (auto intro: parseReset_first parseReset_second)
  with lim rem nz date show ?thesis
    by (simp add: parseRateLimit_def IsZero_def Time_Sub_def Let_def)
qed

theorem parseRateLimit_parsed_headers_witness:
  "parseRateLimit sampleParse
     (okResponse (rateHeaders ''100'' ''42'' ''Mon, 2 Jan 2006 15:05:05 GMT''
        ''Mon, 02 Jan 2006 15:04:05 GMT'')) =
   Inr \<lparr>Limit = 100, Remaining = 42, ResetAt = 63271811105000000000, Period = 60000000000\<rparr>
   \<and> parseRateLimit sampleParse
     (okResponse (rateHeaders ''100'' ''0'' ''Mon, 02 Jan 2006 15:05:05 GMT''
        ''Mon, 02 Jan 2006 15:04:05 GMT'')) =
   Inr \<lparr>Limit = 100, Remaining = 0, ResetAt = 63271811105000000000, Period = 60000000000\<rparr>"
  using
    parseRateLimit_parsed_headers [of
      "okResponse (rateHeaders ''100'' ''42'' ''Mon, 2 Jan 2006 15:05:05 GMT''
         ''Mon, 02 Jan 2006 15:04:05 GMT'')"
      100 42 sampleParse 63271811105000000000 "OtherError ''parsing time Mon, 2 Jan 2006 15:05:05 GMT''"
      63271811045000000000]
    parseRateLimit_parsed_headers [of
      "okResponse (rateHeaders ''100'' ''0'' ''Mon, 02 Jan 2006 15:05:05 GMT''
         ''Mon, 02 Jan 2006 15:04:05 GMT'')"
      100 0 sampleParse 63271811105000000000 _
      63271811045000000000]
  by (simp add: okResponse_def rateHeaders_Get Atoi_samples sampleParse_def RFC1123_def
      minDuration_def maxDuration_def)

text \<open>
  The claim as first stated (period equal to the difference, for every header that
  parses) fails on a reset time far from the date, where the period is the largest
  duration, and on a reset header that parses to the zero time, where the result is an
  error.
\<close>

theorem parseRateLimit_period_counterexample:
  "Atoi ''100'' = Inr 100 \<and> Atoi ''0'' = Inr 0
   \<and> sampleParse RFC1123 ''Fri, 31 Dec 9999 23:59:59 GMT'' = Inr 315537897599000000000
   \<and> sampleParse RFC1123 ''Mon, 02 Jan 2006 15:04:05 GMT'' = Inr 63271811045000000000
   \<and> parseRateLimit sampleParse
       (okResponse (rateHeaders ''100'' ''0'' ''Fri, 31 Dec 9999 23:59:59 GMT''
          ''Mon, 02 Jan 2006 15:04:05 GMT'')) \<noteq>
     Inr \<lparr>Limit = 100, Remaining = 0, ResetAt = 315537897599000000000,
          Period = 315537897599000000000 - 63271811045000000000\<rparr>
   \<and> sampleParse RFC1123 ''Mon, 01 Jan 0001 00:00:00 UTC'' = Inr 0
   \<and> isl (parseRateLimit sampleParse
       (okResponse (rateHeaders ''100'' ''0'' ''Mon, 01 Jan 0001 00:00:00 UTC''
          ''Mon, 02 Jan 2006 15:04:05 GMT'')))"
  by (simp add: parseRateLimit_def okResponse_def rateHeaders_Get Atoi_samples sampleParse_def
      RFC1123_def headerTimeFormats_def IsZero_def Time_Sub_def minDuration_def maxDuration_def)

lemma parseRateLimit_malformed:
  assumes "isl (Atoi (Values_Get (Header resp) ''Ratelimit-Limit''))
      \<or> isl (Atoi (Values_Get (Header resp) ''Ratelimit-Remaining''))
      \<or> (\<forall>f \<in> set headerTimeFormats. isl (tp f (Values_Get (Header resp) ''Ratelimit-Reset'')))"
  shows "isl (parseRateLimit tp resp)"
  using assms
  by (auto simp add: parseRateLimit_def IsZero_def Let_def parseReset_none isl_def
      split: sum.splits)

text \<open>
  Claim C5. When the \<open>Ratelimit-Reset\<close> header matches neither layout, or a rate-limit
  header is absent or not an integer, the bookkeeping step returns an error value, the
  stored rate-limit state stays as it was, and the enclosing call goes on: the response
  reaches the decoder, and a 2xx response with well-formed data is returned as the
  value with no error.
\<close>

theorem malformed_rate_limit_headers_keep_state:
  assumes bad: "isl (Atoi (Values_Get (Header resp) ''Ratelimit-Limit''))
      \<or> isl (Atoi (Values_Get (Header resp) ''Ratelimit-Remaining''))
      \<or> (\<forall>f \<in> set headerTimeFormats. isl (tp f (Values_Get (Header resp) ''Ratelimit-Reset'')))"
  shows "isl (parseRateLimit tp resp)
     \<and> updateRateLimit tp resp a = a
     \<and> (httpDoer a req = Inr resp \<longrightarrow>
          execute tp a req = (Inr resp, a\<lparr>sent := sent a @ [req]\<rparr>))
     \<and> (httpDoer a req = Inr resp \<and> 200 \<le> StatusCode resp \<and> StatusCode resp \<le> 299
          \<and> dataField (Body resp) = Some d \<and> dec d = Some v \<longrightarrow>
          Single tp dec a req = (Returned (Some v) None, a\<lparr>sent := sent a @ [req]\<rparr>))"
proof -
  have e: "isl (parseRateLimit tp resp)"
    using bad by (rule parseRateLimit_malformed)
  then have u: "updateRateLimit tp resp b = b" for b :: "'a API"
    by (auto simp add: updateRateLimit_def isl_def)
  have x: "execute tp a req = (Inr resp, a\<lparr>sent := sent a @ [req]\<rparr>)"
    if "httpDoer a req = Inr resp"
    using that by (simp add: execute_def Let_def u)
  show ?thesis
    using e u x by (auto simp add: Single_def isSuccess_def)
qed

theorem malformed_rate_limit_headers_keep_state_witness:
  "Single sampleParse anyJSON
     (fixedAPI (okResponse (rateHeaders ''100'' ''42'' ''tomorrow'' ''Mon, 02 Jan 2006 15:04:05 GMT'')))
     (Get ''/air/airlines'' :: unit request) =
   (Returned (Some (JStr ''ok'')) None,
    (fixedAPI (okResponse (rateHeaders ''100'' ''42'' ''tomorrow'' ''Mon, 02 Jan 2006 15:04:05 GMT'')))
      \<lparr>sent := [Get ''/air/airlines'']\<rparr>)
   \<and> isl (parseRateLimit sampleParse (okResponse Map.empty))"
proof -
  let ?resp = "okResponse (rateHeaders ''100'' ''42'' ''tomorrow'' ''Mon, 02 Jan 2006 15:04:05 GMT'')"
  have h1: "isl (Atoi (Values_Get (Header ?resp) ''Ratelimit-Limit''))
      \<or> isl (Atoi (Values_Get (Header ?resp) ''Ratelimit-Remaining''))
      \<or> (\<forall>f \<in> set headerTimeFormats. isl (sampleParse f (Values_Get (Header ?resp) ''Ratelimit-Reset'')))"
    by (simp add: okResponse_def rateHeaders_Get sampleParse_def headerTimeFormats_def)
  have h2: "isl (Atoi (Values_Get (Header (okResponse Map.empty)) ''Ratelimit-Limit''))
      \<or> isl (Atoi (Values_Get (Header (okResponse Map.empty)) ''Ratelimit-Remaining''))
      \<or> (\<forall>f \<in> set headerTimeFormats.
            isl (sampleParse f (Values_Get (Header (okResponse Map.empty)) ''Ratelimit-Reset'')))"
    by (simp add: okResponse_def Values_Get_empty Atoi_samples)
  have "isl (parseRateLimit sampleParse (okResponse Map.empty))"
    by (rule malformed_rate_limit_headers_keep_state
      [where resp = "okResponse Map.empty" and tp = sampleParse, OF h2, THEN conjunct1])
  moreover have "Single sampleParse anyJSON (fixedAPI ?resp) (Get ''/air/airlines'' :: unit request) =
      (Returned (Some (JStr ''ok'')) None, (fixedAPI ?resp)\<lparr>sent := [Get ''/air/airlines'']\<rparr>)"
    using malformed_rate_limit_headers_keep_state
      [where resp = ?resp and tp = sampleParse and a = "fixedAPI ?resp"
         and req = "Get ''/air/airlines'' :: unit request" and d = "JStr ''ok''"
         and dec = anyJSON and v = "JStr ''ok''", OF h1]
    by (simp add: fixedAPI_def okResponse_def dataField_def anyJSON_def)
  ultimately show ?thesis by simp
qed

section \<open>Response executor and error decoder\<close>

lemma execute_response:
  "httpDoer a req = Inr resp \<Longrightarrow> fst (execute tp a req) = Inr resp"
  by (simp add: execute_def Let_def)


lemma Single_success:
  assumes "httpDoer a req = Inr resp" and "isSuccess (StatusCode resp)"
    and "dataField (Body resp) = Some d" and "dec d = Some v"
  shows "fst (Single tp dec a req) = Returned (Some v) None"
  using assms execute_response [of a req resp tp]
  by (cases "execute tp a req") (simp add: Single_def)

lemma Single_failure:
  assumes "httpDoer a req = Inr resp" and "\<not> isSuccess (StatusCode resp)"
  shows "fst (Single tp dec a req) =
           Returned None (Some (decodeError (StatusCode resp) (Body resp)))"
  using assms execute_response [of a req resp tp]
  by (cases "execute tp a req") (simp add: Single_def)


lemma strField_string: "map_of f k = Some (JStr s) \<Longrightarrow> strField f k = s"
  by (simp add: strField_def)

lemma errorsOf_present:
  "body = Some (JObj kvs) \<Longrightarrow> map_of kvs ''errors'' = Some (JArr (ent # es))
     \<Longrightarrow> errorsOf body = decodeErrorObject ent # map decodeErrorObject es"
  by (simp add: errorsOf_def)

lemma errorsOf_absent:
  "\<not> (\<exists>kvs ent es. body = Some (JObj kvs) \<and> map_of kvs ''errors'' = Some (JArr (ent # es)))
     \<Longrightarrow> errorsOf body = []"
  by (auto simp add: errorsOf_def split: option.splits json.splits) (metis list.exhaust)

text \<open>
  Claim C3. When the response status is in 200 to 299 and the \<open>data\<close> field of the
  body is well-formed for the target type, \<open>Single\<close> returns the decoded \<open>data\<close> and
  no error. When the status is outside 200 to 299, \<open>Single\<close> returns no value and a
  structured error with the status: when the body has an \<open>errors\<close> array with a first
  entry, the error holds the decoded entries, and its type and code are exactly those
  of the first entry; in every other case (no array, an empty array, a body that is
  not a JSON object or not JSON at all) it is the synthesized generic error, and its
  type and code are exactly the generic ones.
\<close>

theorem Single_value_or_structured_error:
  "(httpDoer a req = Inr resp \<and> 200 \<le> StatusCode resp \<and> StatusCode resp \<le> 299
      \<and> Body resp = Some (JObj kvs) \<and> map_of kvs ''data'' = Some d \<and> dec d = Some v
      \<longrightarrow> fst (Single tp dec a req) = Returned (Some v) None)
   \<and> (httpDoer a req = Inr resp \<and> \<not> (200 \<le> StatusCode resp \<and> StatusCode resp \<le> 299)
      \<longrightarrow> (\<exists>errs. fst (Single tp dec a req) =
                    Returned None (Some (DuffelError (StatusCode resp) errs))
           \<and> (Body resp = Some (JObj kvs)
                \<and> map_of kvs ''errors'' = Some (JArr (JObj f # es))
                \<and> map_of f ''type'' = Some (JStr ty) \<and> map_of f ''code'' = Some (JStr co)
              \<longrightarrow> (\<forall>t. IsType (DuffelError (StatusCode resp) errs) t \<longleftrightarrow> t = ty)
                \<and> (\<forall>c. IsCode (DuffelError (StatusCode resp) errs) c \<longleftrightarrow> c = co))
           \<and> (Body resp = Some (JObj kvs) \<and> map_of kvs ''errors'' = Some (JArr (ent # es))
              \<longrightarrow> errs = decodeErrorObject ent # map decodeErrorObject es)
           \<and> (\<not> (\<exists>kvs' ent' es'. Body resp = Some (JObj kvs')
                    \<and> map_of kvs' ''errors'' = Some (JArr (ent' # es')))
              \<longrightarrow> errs = [genericError]
                \<and> (\<forall>t. IsType (DuffelError (StatusCode resp) errs) t \<longleftrightarrow> t = GenericErrorType)
                \<and> (\<forall>c. IsCode (DuffelError (StatusCode resp) errs) c \<longleftrightarrow> c = GenericErrorCode))))"
proof (intro conjI impI)
  assume h: "httpDoer a req = Inr resp \<and> 200 \<le> StatusCode resp \<and> StatusCode resp \<le> 299
      \<and> Body resp = Some (JObj kvs) \<and> map_of kvs ''data'' = Some d \<and> dec d = Some v"
  then have "dataField (Body resp) = Some d" "isSuccess (StatusCode resp)"
    by (simp_all add: dataField_def isSuccess_def)
  with h show "fst (Single tp dec a req) = Returned (Some v) None"
    by (simp add: Single_success)
next
  assume h: "httpDoer a req = Inr resp \<and> \<not> (200 \<le> StatusCode resp \<and> StatusCode resp \<le> 299)"
  then have s: "fst (Single tp dec a req) =
      Returned None (Some (decodeError (StatusCode resp) (Body resp)))"
    by (simp add: Single_failure isSuccess_def)
  let ?errs = "if errorsOf (Body resp) = [] then [genericError] else errorsOf (Body resp)"
  let ?e = "DuffelError (StatusCode resp) ?errs"
  have r: "fst (Single tp dec a req) = Returned None (Some ?e)"
    using s by (simp add: decodeError_def)
  have p: "(\<forall>t. IsType ?e t \<longleftrightarrow> t = ty) \<and> (\<forall>c. IsCode ?e c \<longleftrightarrow> c = co)"
    if "Body resp = Some (JObj kvs) \<and> map_of kvs ''errors'' = Some (JArr (JObj f # es))
        \<and> map_of f ''type'' = Some (JStr ty) \<and> map_of f ''code'' = Some (JStr co)"
    using that errorsOf_present [of "Body resp" kvs "JObj f" es]
    by (auto simp add: decodeErrorObject_def strField_string)
  have q: "?errs = decodeErrorObject ent # map decodeErrorObject es"
    if "Body resp = Some (JObj kvs) \<and> map_of kvs ''errors'' = Some (JArr (ent # es))"
    using that errorsOf_present [of "Body resp" kvs ent es] by simp
  have g: "?errs = [genericError]
      \<and> (\<forall>t. IsType ?e t \<longleftrightarrow> t = GenericErrorType)
      \<and> (\<forall>c. IsCode ?e c \<longleftrightarrow> c = GenericErrorCode)"
    if "\<not> (\<exists>kvs' ent' es'. Body resp = Some (JObj kvs')
          \<and> map_of kvs' ''errors'' = Some (JArr (ent' # es')))"
    using errorsOf_absent [OF that] by (auto simp add: genericError_def)
  show "\<exists>errs. fst (Single tp dec a req) =
                    Returned None (Some (DuffelError (StatusCode resp) errs))
           \<and> (Body resp = Some (JObj kvs)
                \<and> map_of kvs ''errors'' = Some (JArr (JObj f # es))
                \<and> map_of f ''type'' = Some (JStr ty) \<and> map_of f ''code'' = Some (JStr co)
              \<longrightarrow> (\<forall>t. IsType (DuffelError (StatusCode resp) errs) t \<longleftrightarrow> t = ty)
                \<and> (\<forall>c. IsCode (DuffelError (StatusCode resp) errs) c \<longleftrightarrow> c = co))
           \<and> (Body resp = Some (JObj kvs) \<and> map_of kvs ''errors'' = Some (JArr (ent # es))
              \<longrightarrow> errs = decodeErrorObject ent # map decodeErrorObject es)
           \<and> (\<not> (\<exists>kvs' ent' es'. Body resp = Some (JObj kvs')
                    \<and> map_of kvs' ''errors'' = Some (JArr (ent' # es')))
              \<longrightarrow> errs = [genericError]
                \<and> (\<forall>t. IsType (DuffelError (StatusCode resp) errs) t \<longleftrightarrow> t = GenericErrorType)
                \<and> (\<forall>c. IsCode (DuffelError (StatusCode resp) errs) c \<longleftrightarrow> c = GenericErrorCode))"
    using r p q g by (intro exI [of _ ?errs]) blast?
qed

theorem Single_value_or_structured_error_witness:
  "fst (Single noParse anyJSON (fixedAPI (okResponse Map.empty)) (Get ''/air/airlines'' :: unit request))
     = Returned (Some (JStr ''ok'')) None
   \<and> (\<exists>errs. fst (Single noParse anyJSON (fixedAPI badRequest) (Get ''/air/airlines'' :: unit request))
         = Returned None (Some (DuffelError 400 errs))
       \<and> IsType (DuffelError 400 errs) ''airline_error''
       \<and> IsCode (DuffelError 400 errs) ''airline_unknown'')
   \<and> fst (Single noParse anyJSON (fixedAPI serverError) (Get ''/air/airlines'' :: unit request))
         = Returned None (Some (DuffelError 500 [genericError]))
   \<and> fst (Single noParse anyJSON (fixedAPI gatewayError) (Get ''/air/airlines'' :: unit request))
         = Returned None (Some (DuffelError 502 [genericError]))"
proof -
  let ?req = "Get ''/air/airlines'' :: unit request"
  have 1: "fst (Single noParse anyJSON (fixedAPI (okResponse Map.empty)) ?req)
      = Returned (Some (JStr ''ok'')) None"
    using Single_value_or_structured_error
      [where a = "fixedAPI (okResponse Map.empty)" and req = ?req
         and resp = "okResponse Map.empty" and kvs = "[(''data'', JStr ''ok'')]"
         and d = "JStr ''ok''" and dec = anyJSON and v = "JStr ''ok''" and tp = noParse]
    by (simp add: fixedAPI_def okResponse_def anyJSON_def)
  have 2: "\<exists>errs. fst (Single noParse anyJSON (fixedAPI badRequest) ?req)
         = Returned None (Some (DuffelError 400 errs))
       \<and> IsType (DuffelError 400 errs) ''airline_error''
       \<and> IsCode (DuffelError 400 errs) ''airline_unknown''"
    using Single_value_or_structured_error
      [where a = "fixedAPI badRequest" and req = ?req and resp = badRequest
         and kvs = airlineErrorEnvelope and f = airlineErrorFields and es = "[]"
         and ent = "JObj airlineErrorFields"
         and ty = "''airline_error''" and co = "''airline_unknown''"
         and dec = anyJSON and tp = noParse]
    by (simp add: fixedAPI_def badRequest_def airlineErrorBody_def airlineErrorEnvelope_def
        airlineErrorFields_def) blast?
  have 3: "fst (Single noParse anyJSON (fixedAPI serverError) ?req)
         = Returned None (Some (DuffelError 500 [genericError]))"
    using Single_value_or_structured_error
      [where a = "fixedAPI serverError" and req = ?req and resp = serverError
         and dec = anyJSON and tp = noParse]
    by (simp add: fixedAPI_def serverError_def) blast?
  have 4: "fst (Single noParse anyJSON (fixedAPI gatewayError) ?req)
         = Returned None (Some (DuffelError 502 [genericError]))"
    using Single_value_or_structured_error
      [where a = "fixedAPI gatewayError" and req = ?req and resp = gatewayError
         and dec = anyJSON and tp = noParse]
    by (simp add: fixedAPI_def gatewayError_def) blast?
  from 1 2 3 4 show ?thesis by blast
qed




section \<open>Pagination\<close>

lemma drain_add:
  "drain (m + n) it =
     (case drain m it of
        (r1, l1, it1) \<Rightarrow> (case drain n it1 of (r2, l2, it2) \<Rightarrow> (r1 @ r2, l1 @ l2, it2)))"
  by (induction m arbitrary: it) (simp_all split: prod.splits)

lemma drain_add_eq:
  "drain m it = (r1, l1, it1) \<Longrightarrow> drain n it1 = (r2, l2, it2)
     \<Longrightarrow> drain (m + n) it = (r1 @ r2, l1 @ l2, it2)"
  by (simp add: drain_add)


lemma drain_Holding:
  "phase it = Holding xs c \<Longrightarrow>
     drain (length xs) it = (map Some xs, [], it\<lparr>phase := Holding [] c\<rparr>)"
proof (induction xs arbitrary: it)
  case Nil
  then show ?case by simp
next
  case (Cons x xs)
  have "Advance it = (it\<lparr>phase := Holding xs c\<rparr>, Some x, [])"
    using Cons.prems by (simp add: Advance_def)
  moreover have "drain (length xs) (it\<lparr>phase := Holding xs c\<rparr>) =
      (map Some xs, [], it\<lparr>phase := Holding [] c\<rparr>)"
    using Cons.IH [of "it\<lparr>phase := Holding xs c\<rparr>"] by simp
  ultimately show ?case by simp
qed

lemma drain_terminal:
  "phase it = Failed e \<or> phase it = Exhausted \<Longrightarrow> drain n it = (replicate n None, [], it)"
  by (induction n) (auto simp add: Advance_def)

lemma Advance_fetch_page:
  assumes "phase it = Ready c \<or> (phase it = Holding [] c \<and> c \<noteq> [])"
    and "pager it c = Inr (x # xs, after)"
  shows "Advance it = (it\<lparr>phase := Holding xs after\<rparr>, Some x, [c])"
  using assms
  by (auto simp add: Advance_def fetchAndDeliver_def beginFetch_def onFetch_def deliver_def)


lemma Advance_fetch_empty:
  assumes "phase it = Ready c \<or> (phase it = Holding [] c \<and> c \<noteq> [])"
    and "pager it c = Inr ([], after)" and "after \<noteq> []"
  shows "Advance it = (it\<lparr>phase := Holding [] after\<rparr>, None, [c])"
  using assms
  by (auto simp add: Advance_def fetchAndDeliver_def beginFetch_def onFetch_def deliver_def)

lemma Advance_fetch_error:
  assumes "phase it = Ready c \<or> (phase it = Holding [] c \<and> c \<noteq> [])"
    and "pager it c = Inl e"
  shows "Advance it = (it\<lparr>phase := Failed e\<rparr>, None, [c])"
  using assms
  by (auto simp add: Advance_def fetchAndDeliver_def beginFetch_def onFetch_def deliver_def)


lemma drain_page:
  assumes "phase it = Ready c \<or> (phase it = Holding [] c \<and> c \<noteq> [])"
    and "pager it c = Inr (x # xs, after)"
  shows "drain (length (x # xs)) it = (map Some (x # xs), [c], it\<lparr>phase := Holding [] after\<rparr>)"
  using Advance_fetch_page [OF assms]
    drain_Holding [of "it\<lparr>phase := Holding xs after\<rparr>" xs after]
  by simp





text \<open>
  Claim C6. When the first page fetch succeeds and the second fails, every item of the
  first page is delivered while the error accessor still reports nothing, every later
  advance reports no more items (so no item of a later page is ever yielded and no
  third fetch is issued), the iterator ends in the failed state, and its error accessor
  returns the error of the failed fetch.
\<close>

theorem iterator_second_fetch_fails:
  assumes first: "pager it c = Inr (p1, after)" and more: "after \<noteq> []"
    and second: "pager it after = Inl e" and ready: "phase it = Ready c"
  shows "fst (drain (length p1) it) = map Some p1
     \<and> Err (snd (snd (drain (length p1) it))) = None
     \<and> drain (length p1 + (2 + k)) it =
         (map Some p1 @ replicate (2 + k) None, [c, after], it\<lparr>phase := Failed e\<rparr>)
     \<and> Err (it\<lparr>phase := Failed e\<rparr>) = Some e"
proof -
  let ?held = "it\<lparr>phase := Holding [] after\<rparr>"
  have fail: "drain (Suc k) ?held = (replicate (Suc k) None, [after], it\<lparr>phase := Failed e\<rparr>)"
    using Advance_fetch_error [of ?held after e] more second
      drain_terminal [of "it\<lparr>phase := Failed e\<rparr>" e k]
    by simp
  have err: "Err (it\<lparr>phase := Failed e\<rparr>) = Some e"
    by (simp add: Err_def)
  show ?thesis
  proof (cases p1)
    case Nil
    have "Advance it = (?held, None, [c])"
      using Advance_fetch_empty [of it c after] first more ready Nil by simp
    then have "drain (Suc (Suc k)) it =
        (replicate (Suc (Suc k)) None, [c, after], it\<lparr>phase := Failed e\<rparr>)"
      using fail by simp
    then show ?thesis using Nil ready err by (simp add: Err_def)
  next
    case (Cons x xs)
    have d: "drain (length p1) it = (map Some p1, [c], ?held)"
      using drain_page [of it c x xs after] first ready Cons by simp
    have "drain 1 (it\<lparr>phase := Failed e\<rparr>) = ([None], [], it\<lparr>phase := Failed e\<rparr>)"
      using drain_terminal [of "it\<lparr>phase := Failed e\<rparr>" e 1] by simp
    from drain_add_eq [OF fail this]
    have "drain (Suc k + 1) ?held =
        (replicate (Suc k) None @ [None], [after], it\<lparr>phase := Failed e\<rparr>)"
      by simp
    from drain_add_eq [OF d this]
    have "drain (length p1 + (Suc k + 1)) it =
        (map Some p1 @ replicate (Suc k) None @ [None], [c, after], it\<lparr>phase := Failed e\<rparr>)"
      by simp
    moreover have "replicate (Suc k) None @ [None] = replicate (2 + k) (None :: 'a option)"
      by (simp add: replicate_append_same)
    moreover have "Suc k + 1 = 2 + k" by simp
    ultimately have "drain (length p1 + (2 + k)) it =
        (map Some p1 @ replicate (2 + k) None, [c, after], it\<lparr>phase := Failed e\<rparr>)"
      by simp
    then show ?thesis using d err by (simp add: Err_def)
  qed
qed

theorem iterator_second_fetch_fails_witness:
  "drain 5 \<lparr>pager = brokenSecondPage, phase = Ready []\<rparr> =
     ([Some ''off_1'', Some ''off_2'', None, None, None],
      [[], ''g2wAAAAC''],
      \<lparr>pager = brokenSecondPage, phase = Failed (NetworkError (OtherError ''connection reset''))\<rparr>)
   \<and> Err \<lparr>pager = brokenSecondPage, phase = Failed (NetworkError (OtherError ''connection reset''))\<rparr>
       = Some (NetworkError (OtherError ''connection reset''))"
proof -
  let ?it = "\<lparr>pager = brokenSecondPage, phase = Ready []\<rparr>"
  have first: "pager ?it [] = Inr ([''off_1'', ''off_2''], ''g2wAAAAC'')"
    and more: "''g2wAAAAC'' \<noteq> []"
    and second: "pager ?it ''g2wAAAAC'' = Inl (NetworkError (OtherError ''connection reset''))"
    and ready: "phase ?it = Ready []"
    by (simp_all add: brokenSecondPage_def)
  have five: "length [''off_1'', ''off_2''] + (2 + 1) = (5::nat)" by simp
  show ?thesis
    using iterator_second_fetch_fails [OF first more second ready, of 1] unfolding five
    by (simp add: numeral_3_eq_3)
qed

section \<open>Rate limiter\<close>



end
